theory Spec2Isabelle
  imports Complex_Main "HOL-Library.AList"
begin

section \<open>Data model\<close>

text \<open>
  The two route modules share the row and payload types. A JavaScript \<^verbatim>\<open>number\<close>
  is modelled as a \<^typ>\<open>real\<close>: arithmetic is exact, so rounding error and overflow of
  IEEE doubles are abstracted away. A field typed \<^verbatim>\<open>number | null\<close> is a
  \<^typ>\<open>real option\<close>. Such a value comes from an extractor, which stores a number only
  after \<^verbatim>\<open>isNum\<close>, or arrives as JSON, which has neither \<^verbatim>\<open>NaN\<close> nor infinities, and
  the merge and the scoring read it through \<^verbatim>\<open>isNum\<close>; so \<^term>\<open>None\<close> stands for
  \<^verbatim>\<open>null\<close>, \<^verbatim>\<open>undefined\<close> and the non-finite values alike, and \<^verbatim>\<open>isNum x\<close> is
  \<open>x \<noteq> None\<close>. A year is a finite number: both extractors skip a non-finite year.
\<close>

record Meta =
  revenue_source :: string
  opIncome_source :: string
  fcf_source :: string

record Row =
  year :: real
  revenue :: "real option"
  opIncome :: "real option"
  fcf :: "real option"
  meta :: "Meta option"

record Multiples =
  pe :: "real option"
  ps :: "real option"

record FinancialsPayload =
  ticker :: string
  generated_at_utc :: string
  source_note :: "string option"
  rows :: "Row list"
  multiples :: "Multiples option"

section \<open>Scoring engine (recommendation route)\<close>

subsection \<open>Helpers\<close>

definition isNum :: "real option \<Rightarrow> bool" where
  "isNum x = (x \<noteq> None)"

definition clamp :: "real \<Rightarrow> real \<Rightarrow> real \<Rightarrow> real" where
  "clamp x lo hi = max lo (min hi x)"

text \<open>\<^verbatim>\<open>Math.round\<close> rounds to the nearest integer, a tie going up.\<close>

definition Math_round :: "real \<Rightarrow> real" where
  "Math_round x = of_int \<lfloor>x + 1 / 2\<rfloor>"

text \<open>
  \<^verbatim>\<open>Math.pow\<close> is only reached with a positive base, where it is the real power
  \<^term>\<open>(powr)\<close>.
\<close>

definition cagr :: "real \<Rightarrow> real \<Rightarrow> real \<Rightarrow> real option" where
  "cagr first last_v years =
     (if first \<le> 0 \<or> last_v \<le> 0 \<or> years \<le> 0 then None
      else Some ((last_v / first) powr (1 / years) - 1))"

datatype Trend = UP | DOWN | FLAT | NA

definition trend :: "real \<Rightarrow> real \<Rightarrow> Trend" where
  "trend a b =
     (let chg = b / a - 1 in
      if chg > 0.05 then UP else if chg < - 0.05 then DOWN else FLAT)"

definition scaleLinear :: "real \<Rightarrow> real \<Rightarrow> real \<Rightarrow> real" where
  "scaleLinear x x0 x1 = clamp ((x - x0) / (x1 - x0)) 0 1"

definition scaleInverse :: "real \<Rightarrow> real \<Rightarrow> real \<Rightarrow> real" where
  "scaleInverse x best worst = clamp ((worst - x) / (worst - best)) 0 1"

record Sanitized = Multiples +
  notes_list :: "string list"

definition sanitizeMultiples :: "real option \<Rightarrow> real option \<Rightarrow> Sanitized" where
  "sanitizeMultiples pe_in ps_in =
     (let out = \<lparr>pe = pe_in, ps = ps_in, notes_list = []\<rparr>;
          out = (case ps out of
                   Some v \<Rightarrow>
                     if v > 40
                     then out\<lparr>notes_list := notes_list out @
                            [''P/S is extremely high; skipped from scoring (not comparable).''],
                          ps := None\<rparr>
                     else out
                 | None \<Rightarrow> out);
          out = (case pe out of
                   Some v \<Rightarrow>
                     if v > 80
                     then out\<lparr>notes_list := notes_list out @
                            [''P/E is extremely high; skipped from scoring (not comparable).''],
                          pe := None\<rparr>
                     else out
                 | None \<Rightarrow> out)
      in out)"

datatype Confidence = HIGH | MED | LOW

definition pickConfidence :: "real \<Rightarrow> Confidence" where
  "pickConfidence c = (if c \<ge> 0.7 then HIGH else if c \<ge> 0.35 then MED else LOW)"

subsection \<open>Feature engineering\<close>

text \<open>
  Each local of the handler is a function of the financials payload \<open>fin\<close>. The rows
  are first sorted by year (a stable sort); \<open>latest\<close>, \<open>prev\<close> and \<open>oldest\<close> are
  \<^term>\<open>None\<close> where the source has \<^verbatim>\<open>null\<close>.
\<close>

definition rows_sorted :: "FinancialsPayload \<Rightarrow> Row list" where
  "rows_sorted fin = sort_key year (rows fin)"

definition latest :: "Row list \<Rightarrow> Row option" where
  "latest rs = (if rs = [] then None else Some (rs ! (length rs - 1)))"

definition prev :: "Row list \<Rightarrow> Row option" where
  "prev rs = (if length rs \<ge> 2 then Some (rs ! (length rs - 2)) else None)"

definition oldest :: "Row list \<Rightarrow> Row option" where
  "oldest rs = (case rs of [] \<Rightarrow> None | r # _ \<Rightarrow> Some r)"

text \<open>The revenue of an optional row: \<^verbatim>\<open>r && isNum(r.revenue)\<close> holds iff this is \<open>Some\<close>.\<close>

definition field_of :: "(Row \<Rightarrow> real option) \<Rightarrow> Row option \<Rightarrow> real option" where
  "field_of f r = (case r of None \<Rightarrow> None | Some x \<Rightarrow> f x)"

definition revCagr_of :: "Row list \<Rightarrow> real option" where
  "revCagr_of rs =
     (case (field_of revenue (oldest rs), field_of revenue (latest rs), length rs \<ge> 3) of
        (Some o_rev, Some l_rev, True) \<Rightarrow> cagr o_rev l_rev (real (length rs - 1))
      | _ \<Rightarrow>
          (case (field_of revenue (prev rs), field_of revenue (latest rs)) of
             (Some p_rev, Some l_rev) \<Rightarrow>
               if p_rev \<noteq> 0 then Some (l_rev / p_rev - 1) else None
           | _ \<Rightarrow> None))"

definition revCagr :: "FinancialsPayload \<Rightarrow> real option" where
  "revCagr fin = revCagr_of (rows_sorted fin)"

definition margin_of :: "(Row \<Rightarrow> real option) \<Rightarrow> Row list \<Rightarrow> real option" where
  "margin_of f rs =
     (case (field_of f (latest rs), field_of revenue (latest rs)) of
        (Some v, Some rv) \<Rightarrow> if rv \<noteq> 0 then Some (v / rv) else None
      | _ \<Rightarrow> None)"

definition opMargin :: "FinancialsPayload \<Rightarrow> real option" where
  "opMargin fin = margin_of opIncome (rows_sorted fin)"

definition fcfMargin :: "FinancialsPayload \<Rightarrow> real option" where
  "fcfMargin fin = margin_of fcf (rows_sorted fin)"

definition fcfTrend :: "FinancialsPayload \<Rightarrow> Trend" where
  "fcfTrend fin =
     (case (field_of fcf (prev (rows_sorted fin)), field_of fcf (latest (rows_sorted fin))) of
        (Some p, Some l) \<Rightarrow> if p \<noteq> 0 then trend \<bar>p\<bar> \<bar>l\<bar> else NA
      | _ \<Rightarrow> NA)"

text \<open>Original multiples (\<^verbatim>\<open>fin.multiples?.pe ?? null\<close>) and the sanitized ones used for scoring.\<close>

definition pe0 :: "FinancialsPayload \<Rightarrow> real option" where
  "pe0 fin = (case multiples fin of None \<Rightarrow> None | Some m \<Rightarrow> pe m)"

definition ps0 :: "FinancialsPayload \<Rightarrow> real option" where
  "ps0 fin = (case multiples fin of None \<Rightarrow> None | Some m \<Rightarrow> ps m)"

definition mult :: "FinancialsPayload \<Rightarrow> Sanitized" where
  "mult fin = sanitizeMultiples (pe0 fin) (ps0 fin)"

definition pe_scored :: "FinancialsPayload \<Rightarrow> real option" where
  "pe_scored fin = pe (mult fin)"

definition ps_scored :: "FinancialsPayload \<Rightarrow> real option" where
  "ps_scored fin = ps (mult fin)"

subsection \<open>Scoring\<close>

definition WEIGHTS_growth :: real where "WEIGHTS_growth = 35"
definition WEIGHTS_margin :: real where "WEIGHTS_margin = 35"
definition WEIGHTS_value :: real where "WEIGHTS_value = 30"

definition used_growth_flag :: "FinancialsPayload \<Rightarrow> bool" where
  "used_growth_flag fin = isNum (revCagr fin)"

definition growthScore :: "FinancialsPayload \<Rightarrow> real" where
  "growthScore fin =
     (case revCagr fin of
        Some g \<Rightarrow> scaleLinear g (- 0.2) 0.3 * WEIGHTS_growth
      | None \<Rightarrow> 0)"

definition marginScore :: "FinancialsPayload \<Rightarrow> real" where
  "marginScore fin =
     (let s = 0;
          s = (case opMargin fin of Some m \<Rightarrow> s + scaleLinear m 0 0.25 * 20 | None \<Rightarrow> s);
          s = (case fcfMargin fin of Some m \<Rightarrow> s + scaleLinear m 0 0.2 * 15 | None \<Rightarrow> s)
      in s)"

definition used_margin_flag :: "FinancialsPayload \<Rightarrow> bool" where
  "used_margin_flag fin = (isNum (opMargin fin) \<or> isNum (fcfMargin fin))"

definition valueScore :: "FinancialsPayload \<Rightarrow> real" where
  "valueScore fin =
     (let s = 0;
          s = (case pe_scored fin of Some v \<Rightarrow> s + scaleInverse v 10 40 * 18 | None \<Rightarrow> s);
          s = (case ps_scored fin of Some v \<Rightarrow> s + scaleInverse v 1 12 * 12 | None \<Rightarrow> s)
      in s)"

definition used_value_flag :: "FinancialsPayload \<Rightarrow> bool" where
  "used_value_flag fin = (isNum (pe_scored fin) \<or> isNum (ps_scored fin))"

definition usedTotalWeight :: "FinancialsPayload \<Rightarrow> real" where
  "usedTotalWeight fin =
     (if used_growth_flag fin then WEIGHTS_growth else 0) +
     (if used_margin_flag fin then WEIGHTS_margin else 0) +
     (if used_value_flag fin then WEIGHTS_value else 0)"

definition raw_total :: "FinancialsPayload \<Rightarrow> real" where
  "raw_total fin = growthScore fin + marginScore fin + valueScore fin"

definition scoreNorm :: "FinancialsPayload \<Rightarrow> real" where
  "scoreNorm fin =
     (if usedTotalWeight fin = 0 then 50
      else clamp (Math_round (raw_total fin / usedTotalWeight fin * 100)) 0 100)"

definition coverage :: "FinancialsPayload \<Rightarrow> real" where
  "coverage fin = usedTotalWeight fin / 100"

definition penaltyFactor :: "FinancialsPayload \<Rightarrow> real" where
  "penaltyFactor fin = 0.7 + 0.3 * coverage fin"

definition scoreFinal :: "FinancialsPayload \<Rightarrow> real" where
  "scoreFinal fin = clamp (Math_round (scoreNorm fin * penaltyFactor fin)) 0 100"

datatype Signal = BUY | WATCH | HOLD | AVOID

definition baseSignal :: "FinancialsPayload \<Rightarrow> Signal" where
  "baseSignal fin =
     (if scoreFinal fin \<ge> 70 then BUY
      else if scoreFinal fin \<ge> 55 then WATCH
      else if scoreFinal fin \<ge> 40 then HOLD
      else AVOID)"

definition lowConf :: "FinancialsPayload \<Rightarrow> bool" where
  "lowConf fin = (coverage fin < 0.6)"

definition warnings_of :: "FinancialsPayload \<Rightarrow> string list" where
  "warnings_of fin =
     (let w = [];
          w = (if notes_list (mult fin) \<noteq> [] then w @ notes_list (mult fin) else w);
          w = (if coverage fin = 0
               then w @ [''No usable financial/value signals; neutral score used.'']
               else if coverage fin < 0.35
               then w @ [''Very low coverage; treat as WATCH (not a strong call).'']
               else if coverage fin < 0.6
               then w @ [''Low coverage; treat as WATCH (not a strong call).'']
               else w)
      in w)"

definition signal_final :: "FinancialsPayload \<Rightarrow> Signal" where
  "signal_final fin =
     (if lowConf fin \<and> baseSignal fin \<noteq> WATCH then WATCH else baseSignal fin)"

subsection \<open>Response payload\<close>

text \<open>
  The payload as the handler builds it from the locals above. Left out: the timestamp,
  the \<^verbatim>\<open>source\<close> block, the formatted \<^verbatim>\<open>auto\<close> summary string, the two-decimal
  renderings \<^verbatim>\<open>Number(x.toFixed(2))\<close> of coverage and penalty factor (number formatting
  of the locals \<open>coverage\<close> and \<open>penaltyFactor\<close>), and the \<^verbatim>\<open>explain\<close> block (a
  regrouping of values reported elsewhere in the payload).
\<close>

record Diagnostics =
  score_norm :: real
  low_conf :: bool
  base_signal :: Signal
  diag_note :: string

record Used =
  used_growth :: bool
  used_margin :: bool
  used_value :: bool
  used_total_weight :: real

record Breakdown =
  breakdown_growth :: real
  breakdown_margin :: real
  breakdown_value :: real
  breakdown_raw_total :: real

record Summary =
  summary_revenue_cagr :: "real option"
  summary_op_margin :: "real option"
  summary_fcf_margin :: "real option"
  summary_fcf_trend :: Trend
  summary_pe :: "real option"
  summary_ps :: "real option"

record RecommendationResult =
  rec_ticker :: string
  signal :: Signal
  score :: real
  confidence :: Confidence
  diagnostics :: Diagnostics
  used :: Used
  breakdown :: Breakdown
  summary :: Summary
  warnings :: "string list"

definition recommend :: "string \<Rightarrow> FinancialsPayload \<Rightarrow> RecommendationResult" where
  "recommend tk fin =
     \<lparr>rec_ticker = tk,
      signal = signal_final fin,
      score = scoreFinal fin,
      confidence = pickConfidence (coverage fin),
      diagnostics =
        \<lparr>score_norm = scoreNorm fin,
         low_conf = lowConf fin,
         base_signal = baseSignal fin,
         diag_note = (case source_note fin of None \<Rightarrow> [] | Some s \<Rightarrow> s)\<rparr>,
      used =
        \<lparr>used_growth = used_growth_flag fin,
         used_margin = used_margin_flag fin,
         used_value = used_value_flag fin,
         used_total_weight = usedTotalWeight fin\<rparr>,
      breakdown =
        \<lparr>breakdown_growth = Math_round (growthScore fin),
         breakdown_margin = Math_round (marginScore fin),
         breakdown_value = Math_round (valueScore fin),
         breakdown_raw_total = Math_round (raw_total fin)\<rparr>,
      summary =
        \<lparr>summary_revenue_cagr = revCagr fin,
         summary_op_margin = opMargin fin,
         summary_fcf_margin = fcfMargin fin,
         summary_fcf_trend = fcfTrend fin,
         summary_pe = pe0 fin,
         summary_ps = ps0 fin\<rparr>,
      warnings = warnings_of fin\<rparr>"

section \<open>Reconciler (financials route)\<close>

subsection \<open>Merging the two providers' rows\<close>

text \<open>
  \<^verbatim>\<open>byYear\<close> is a JavaScript \<^verbatim>\<open>Map\<close> from year to a pair of optional rows. It is
  modelled as an association list in insertion order: \<^const>\<open>AList.update\<close> replaces the
  value of a key already present in place and appends a new key at the end, as
  \<^verbatim>\<open>Map.prototype.set\<close> does.
\<close>

record YearPair =
  pair_fh :: "Row option"
  pair_sec :: "Row option"

type_synonym YearMap = "(real \<times> YearPair) list"

text \<open>\<^verbatim>\<open>byYear.get(y) || {}\<close>\<close>

definition get_or_empty :: "YearMap \<Rightarrow> real \<Rightarrow> YearPair" where
  "get_or_empty m y =
     (case map_of m y of None \<Rightarrow> \<lparr>pair_fh = None, pair_sec = None\<rparr> | Some p \<Rightarrow> p)"

definition set_fh :: "YearMap \<Rightarrow> Row \<Rightarrow> YearMap" where
  "set_fh m r = AList.update (year r) ((get_or_empty m (year r))\<lparr>pair_fh := Some r\<rparr>) m"

definition set_sec :: "YearMap \<Rightarrow> Row \<Rightarrow> YearMap" where
  "set_sec m r = AList.update (year r) ((get_or_empty m (year r))\<lparr>pair_sec := Some r\<rparr>) m"

definition byYear_of :: "Row list \<Rightarrow> Row list \<Rightarrow> YearMap" where
  "byYear_of fh sec = foldl set_sec (foldl set_fh [] fh) sec"

text \<open>\<^verbatim>\<open>xs.slice(-3)\<close>: the last three elements, or all of them when there are fewer.\<close>

definition slice_last3 :: "'a list \<Rightarrow> 'a list" where
  "slice_last3 xs = drop (length xs - 3) xs"

definition merge_years :: "Row list \<Rightarrow> Row list \<Rightarrow> real list" where
  "merge_years fh sec = slice_last3 (sort (map fst (byYear_of fh sec)))"

definition merge_value :: "real option \<Rightarrow> real option \<Rightarrow> real option" where
  "merge_value a b = (if isNum a then a else if isNum b then b else None)"

definition merge_source :: "real option \<Rightarrow> real option \<Rightarrow> string" where
  "merge_source a b = (if isNum a then ''finnhub'' else if isNum b then ''sec'' else ''none'')"

definition merge_row :: "real \<Rightarrow> YearPair \<Rightarrow> Row" where
  "merge_row y pair =
     (let a = pair_fh pair; b = pair_sec pair in
      \<lparr>year = y,
       revenue = merge_value (field_of revenue a) (field_of revenue b),
       opIncome = merge_value (field_of opIncome a) (field_of opIncome b),
       fcf = merge_value (field_of fcf a) (field_of fcf b),
       meta = Some
         \<lparr>revenue_source = merge_source (field_of revenue a) (field_of revenue b),
          opIncome_source = merge_source (field_of opIncome a) (field_of opIncome b),
          fcf_source = merge_source (field_of fcf a) (field_of fcf b)\<rparr>\<rparr>)"

text \<open>
  \<^verbatim>\<open>byYear.get(y)!\<close> is not checked at run time: were the key missing, reading
  \<^verbatim>\<open>pair.fh\<close> would throw a \<^verbatim>\<open>TypeError\<close>. The result is \<^term>\<open>None\<close> in that case.
\<close>

definition mergeRowsPreferFinnhub :: "Row list \<Rightarrow> Row list \<Rightarrow> Row list option" where
  "mergeRowsPreferFinnhub fh sec =
     (let byYear = byYear_of fh sec;
          years = slice_last3 (sort (map fst byYear))
      in those (map (\<lambda>y. map_option (merge_row y) (map_of byYear y)) years))"

subsection \<open>The financials handler\<close>

text \<open>
  The handler reads the request, the process environment and four upstream services.
  They are parameters of the model: the normalisation of the ticker
  (\<^verbatim>\<open>decodeURIComponent(t).trim().toUpperCase()\<close>, \<^term>\<open>None\<close> when decoding throws), the
  ticker map, and the rows and multiples parsed from each provider's answer
  (\<^term>\<open>Inl\<close> carries the message of a thrown error). A handler that throws outside
  its \<^verbatim>\<open>try\<close> block returns \<^term>\<open>None\<close>.
\<close>

record FinEnv =
  fin_tickerRaw :: "string option"
  fin_toUpperTicker :: "string \<Rightarrow> string option"
  fin_SEC_USER_AGENT :: "string option"
  fin_FINNHUB_API_KEY :: "string option"
  fin_now :: string
  fetchSecTickerMap :: "string \<Rightarrow> string + (string \<rightharpoonup> string)"
  fetchSecRows :: "string \<Rightarrow> string \<Rightarrow> string + Row list"
  fetchFinnhubRows :: "string \<Rightarrow> string \<Rightarrow> string + Row list"
  fetchFinnhubMultiples :: "string \<Rightarrow> string \<Rightarrow> string + Multiples"

datatype FinBody =
  FinError string "string option"
  | FinPayload FinancialsPayload

record FinResponse =
  fin_status :: nat
  fin_body :: FinBody

definition env_or_empty :: "string option \<Rightarrow> string" where
  "env_or_empty v = (case v of None \<Rightarrow> [] | Some s \<Rightarrow> s)"

definition no_cik_response :: "string \<Rightarrow> string \<Rightarrow> FinResponse" where
  "no_cik_response tk now =
     \<lparr>fin_status = 200,
      fin_body = FinPayload
        \<lparr>ticker = tk,
         generated_at_utc = now,
         source_note = Some ''SEC has no CIK mapping for this ticker.'',
         rows = [],
         multiples = Some \<lparr>pe = None, ps = None\<rparr>\<rparr>\<rparr>"

definition financials_failed :: "string \<Rightarrow> FinResponse" where
  "financials_failed msg =
     \<lparr>fin_status = 500, fin_body = FinError ''financials failed'' (Some msg)\<rparr>"

definition source_note_of :: "bool \<Rightarrow> string" where
  "source_note_of finnhubOk =
     (if finnhubOk then ''Income/CF: Finnhub preferred, SEC used as fallback.''
      else ''Income/CF: SEC source (Finnhub unavailable).'') @
     '' FCF is computed as CFO - abs(Capex).'' @
     '' Some fields may be unavailable depending on filing / tags.''"

definition financials_merge :: "FinEnv \<Rightarrow> string \<Rightarrow> string \<Rightarrow> Row list \<Rightarrow> FinResponse" where
  "financials_merge env tk key secRows =
     (let fhRes = (if key \<noteq> [] then fetchFinnhubRows env tk key else Inl []);
          fhRows = (case fhRes of Inl _ \<Rightarrow> [] | Inr rs \<Rightarrow> rs);
          finnhubOk = (case fhRes of Inl _ \<Rightarrow> False | Inr _ \<Rightarrow> True);
          mults = (if key \<noteq> []
                   then (case fetchFinnhubMultiples env tk key of
                           Inl _ \<Rightarrow> \<lparr>pe = None, ps = None\<rparr>
                         | Inr m \<Rightarrow> m)
                   else \<lparr>pe = None, ps = None\<rparr>)
      in case mergeRowsPreferFinnhub fhRows secRows of
           None \<Rightarrow> financials_failed ''Cannot read properties of undefined''
         | Some merged \<Rightarrow>
             \<lparr>fin_status = 200,
              fin_body = FinPayload
                \<lparr>ticker = tk,
                 generated_at_utc = fin_now env,
                 source_note = Some (source_note_of finnhubOk),
                 rows = merged,
                 multiples = Some mults\<rparr>\<rparr>)"

definition financials_GET :: "FinEnv \<Rightarrow> FinResponse option" where
  "financials_GET env =
     (case fin_tickerRaw env of
        None \<Rightarrow> Some \<lparr>fin_status = 400, fin_body = FinError ''ticker missing'' None\<rparr>
      | Some tickerRaw \<Rightarrow>
          if tickerRaw = []
          then Some \<lparr>fin_status = 400, fin_body = FinError ''ticker missing'' None\<rparr>
          else
            (case fin_toUpperTicker env tickerRaw of
               None \<Rightarrow> None
             | Some tk \<Rightarrow>
                 let SEC_UA = env_or_empty (fin_SEC_USER_AGENT env) in
                 if SEC_UA = []
                 then Some \<lparr>fin_status = 500,
                            fin_body = FinError ''SEC_USER_AGENT missing in .env.local'' None\<rparr>
                 else
                   let FINNHUB_KEY = env_or_empty (fin_FINNHUB_API_KEY env) in
                   (case fetchSecTickerMap env SEC_UA of
                      Inl msg \<Rightarrow> Some (financials_failed msg)
                    | Inr tickerMap \<Rightarrow>
                        (case tickerMap tk of
                           None \<Rightarrow> Some (no_cik_response tk (fin_now env))
                         | Some cik10 \<Rightarrow>
                             if cik10 = []
                             then Some (no_cik_response tk (fin_now env))
                             else
                               (case fetchSecRows env cik10 SEC_UA of
                                  Inl msg \<Rightarrow> Some (financials_failed msg)
                                | Inr secRows \<Rightarrow>
                                    Some (financials_merge env tk FINNHUB_KEY secRows))))))"

section \<open>The recommendation handler\<close>

text \<open>
  The recommendation route fetches the financials route over HTTP and scores the
  payload. The fetch is a parameter: \<^term>\<open>Inl\<close> for a thrown error, \<^term>\<open>Inr\<close> for a
  response. A body without \<^verbatim>\<open>rows\<close> or \<^verbatim>\<open>multiples\<close> is read as an empty payload
  (\<^verbatim>\<open>fin.rows || []\<close>, \<^verbatim>\<open>fin.multiples?.pe ?? null\<close>).
\<close>

record RecEnv =
  rec_tickerRaw :: "string option"
  rec_toUpperTicker :: "string \<Rightarrow> string option"
  fetchFinancials :: "string \<Rightarrow> string + FinResponse"

datatype RecBody =
  RecError string "string option"
  | RecPayload RecommendationResult

record RecResponse =
  rec_status :: nat
  rec_body :: RecBody

fun digits_of :: "nat \<Rightarrow> string" where
  "digits_of n =
     (if n < 10 then [char_of (48 + n)]
      else digits_of (n div 10) @ [char_of (48 + n mod 10)])"

definition response_ok :: "nat \<Rightarrow> bool" where
  "response_ok st = (200 \<le> st \<and> st \<le> 299)"

definition payload_of :: "FinBody \<Rightarrow> FinancialsPayload" where
  "payload_of b =
     (case b of
        FinPayload p \<Rightarrow> p
      | FinError _ _ \<Rightarrow>
          \<lparr>ticker = [], generated_at_utc = [], source_note = None, rows = [],
           multiples = None\<rparr>)"

definition recommendation_GET :: "RecEnv \<Rightarrow> RecResponse option" where
  "recommendation_GET env =
     (case rec_tickerRaw env of
        None \<Rightarrow> Some \<lparr>rec_status = 400, rec_body = RecError ''ticker missing'' None\<rparr>
      | Some tickerRaw \<Rightarrow>
          if tickerRaw = []
          then Some \<lparr>rec_status = 400, rec_body = RecError ''ticker missing'' None\<rparr>
          else
            (case rec_toUpperTicker env tickerRaw of
               None \<Rightarrow> None
             | Some tk \<Rightarrow>
                 (case fetchFinancials env tk of
                    Inl msg \<Rightarrow>
                      Some \<lparr>rec_status = 500,
                            rec_body = RecError ''recommendation failed'' (Some msg)\<rparr>
                  | Inr finRes \<Rightarrow>
                      if \<not> response_ok (fin_status finRes)
                      then Some \<lparr>rec_status = 500,
                                 rec_body = RecError
                                   (''financials HTTP '' @ digits_of (fin_status finRes)) None\<rparr>
                      else Some \<lparr>rec_status = 200,
                                 rec_body = RecPayload
                                   (recommend tk (payload_of (fin_body finRes)))\<rparr>)))"

section \<open>Terms used in the statements\<close>

text \<open>
  The two additive contributions to the margin score and to the value score, as the
  handler accumulates them.
\<close>

definition op_part :: "FinancialsPayload \<Rightarrow> real" where
  "op_part fin = (case opMargin fin of Some m \<Rightarrow> scaleLinear m 0 0.25 * 20 | None \<Rightarrow> 0)"

definition fcf_part :: "FinancialsPayload \<Rightarrow> real" where
  "fcf_part fin = (case fcfMargin fin of Some m \<Rightarrow> scaleLinear m 0 0.2 * 15 | None \<Rightarrow> 0)"

definition pe_part :: "FinancialsPayload \<Rightarrow> real" where
  "pe_part fin = (case pe_scored fin of Some v \<Rightarrow> scaleInverse v 10 40 * 18 | None \<Rightarrow> 0)"

definition ps_part :: "FinancialsPayload \<Rightarrow> real" where
  "ps_part fin = (case ps_scored fin of Some v \<Rightarrow> scaleInverse v 1 12 * 12 | None \<Rightarrow> 0)"

text \<open>The same payload with one multiple absent.\<close>

definition without_ps :: "FinancialsPayload \<Rightarrow> FinancialsPayload" where
  "without_ps fin = fin\<lparr>multiples := Some \<lparr>pe = pe0 fin, ps = None\<rparr>\<rparr>"

definition without_pe :: "FinancialsPayload \<Rightarrow> FinancialsPayload" where
  "without_pe fin = fin\<lparr>multiples := Some \<lparr>pe = None, ps = ps0 fin\<rparr>\<rparr>"

text \<open>
  The row a provider's list holds for a year: the last one with that year, since a later
  \<^verbatim>\<open>byYear.set\<close> overwrites an earlier one. In an extracted series the years are
  distinct and this is the only row of that year.
\<close>

definition row_for :: "Row list \<Rightarrow> real \<Rightarrow> Row option" where
  "row_for rs y = find (\<lambda>r. year r = y) (rev rs)"

text \<open>
  The reconciliation rule in the specification's words: the preferred value when
  present, otherwise the fallback value when present, otherwise unknown, each with its
  provenance.
\<close>

definition resolve_spec :: "real option \<Rightarrow> real option \<Rightarrow> real option \<times> string" where
  "resolve_spec preferred fallback =
     (case preferred of
        Some v \<Rightarrow> (Some v, ''finnhub'')
      | None \<Rightarrow>
          (case fallback of
             Some w \<Rightarrow> (Some w, ''sec'')
           | None \<Rightarrow> (None, ''none'')))"

text \<open>Concrete payloads, provider rows and environments.\<close>

definition fin_cagr :: FinancialsPayload where
  "fin_cagr =
     \<lparr>ticker = ''ACME'', generated_at_utc = ''2024-01-01T00:00:00.000Z'', source_note = None,
      rows = [\<lparr>year = 2021, revenue = Some 100, opIncome = None, fcf = None, meta = None\<rparr>,
              \<lparr>year = 2022, revenue = Some 120, opIncome = None, fcf = None, meta = None\<rparr>,
              \<lparr>year = 2023, revenue = Some 400, opIncome = None, fcf = None, meta = None\<rparr>],
      multiples = None\<rparr>"

definition fin_negative_oldest :: FinancialsPayload where
  "fin_negative_oldest =
     \<lparr>ticker = ''ACME'', generated_at_utc = ''2024-01-01T00:00:00.000Z'', source_note = None,
      rows = [\<lparr>year = 2021, revenue = Some (- 5), opIncome = None, fcf = None, meta = None\<rparr>,
              \<lparr>year = 2022, revenue = Some 120, opIncome = None, fcf = None, meta = None\<rparr>,
              \<lparr>year = 2023, revenue = Some 150, opIncome = None, fcf = None, meta = None\<rparr>],
      multiples = None\<rparr>"

definition fin_yoy_zero :: FinancialsPayload where
  "fin_yoy_zero =
     \<lparr>ticker = ''ACME'', generated_at_utc = ''2024-01-01T00:00:00.000Z'', source_note = None,
      rows = [\<lparr>year = 2022, revenue = Some 100, opIncome = None, fcf = None, meta = None\<rparr>,
              \<lparr>year = 2023, revenue = Some 0, opIncome = None, fcf = None, meta = None\<rparr>],
      multiples = None\<rparr>"

definition fh_rows :: "Row list" where
  "fh_rows =
     [\<lparr>year = 2022, revenue = Some 120, opIncome = None, fcf = Some 8, meta = None\<rparr>,
      \<lparr>year = 2023, revenue = None, opIncome = None, fcf = Some 12, meta = None\<rparr>]"

definition sec_rows :: "Row list" where
  "sec_rows =
     [\<lparr>year = 2020, revenue = Some 90, opIncome = Some 9, fcf = Some 4, meta = None\<rparr>,
      \<lparr>year = 2021, revenue = Some 100, opIncome = Some 10, fcf = None, meta = None\<rparr>,
      \<lparr>year = 2022, revenue = Some 119, opIncome = Some 15, fcf = Some 7, meta = None\<rparr>,
      \<lparr>year = 2023, revenue = Some 100, opIncome = None, fcf = None, meta = None\<rparr>]"

definition merged_rows :: "Row list" where
  "merged_rows =
     [\<lparr>year = 2021, revenue = Some 100, opIncome = Some 10, fcf = None,
       meta = Some \<lparr>revenue_source = ''sec'', opIncome_source = ''sec'', fcf_source = ''none''\<rparr>\<rparr>,
      \<lparr>year = 2022, revenue = Some 120, opIncome = Some 15, fcf = Some 8,
       meta = Some \<lparr>revenue_source = ''finnhub'', opIncome_source = ''sec'', fcf_source = ''finnhub''\<rparr>\<rparr>,
      \<lparr>year = 2023, revenue = Some 100, opIncome = None, fcf = Some 12,
       meta = Some \<lparr>revenue_source = ''sec'', opIncome_source = ''none'', fcf_source = ''finnhub''\<rparr>\<rparr>]"

definition env_unmapped :: FinEnv where
  "env_unmapped =
     \<lparr>fin_tickerRaw = Some ''zzzz'',
      fin_toUpperTicker = (\<lambda>t. Some ''ZZZZ''),
      fin_SEC_USER_AGENT = Some ''portal admin@example.com'',
      fin_FINNHUB_API_KEY = None,
      fin_now = ''2024-01-01T00:00:00.000Z'',
      fetchSecTickerMap = (\<lambda>ua. Inr [''AAPL'' \<mapsto> ''0000320193'']),
      fetchSecRows = (\<lambda>cik ua. Inl ''SEC companyfacts HTTP 404''),
      fetchFinnhubRows = (\<lambda>t k. Inl ''Finnhub financials HTTP 401''),
      fetchFinnhubMultiples = (\<lambda>t k. Inl ''Finnhub metric HTTP 401'')\<rparr>"

definition renv_unmapped :: RecEnv where
  "renv_unmapped =
     \<lparr>rec_tickerRaw = Some ''zzzz'',
      rec_toUpperTicker = (\<lambda>t. Some ''ZZZZ''),
      fetchFinancials =
        (\<lambda>t. case financials_GET env_unmapped of
                Some res \<Rightarrow> Inr res
              | None \<Rightarrow> Inl ''fetch failed'')\<rparr>"

definition fin_value_only :: FinancialsPayload where
  "fin_value_only =
     \<lparr>ticker = ''ACME'', generated_at_utc = ''2024-01-01T00:00:00.000Z'',
      source_note = None, rows = [], multiples = Some \<lparr>pe = Some 10, ps = None\<rparr>\<rparr>"

definition fin_all_null :: FinancialsPayload where
  "fin_all_null =
     \<lparr>ticker = ''ACME'', generated_at_utc = ''2024-01-01T00:00:00.000Z'',
      source_note = None,
      rows = [\<lparr>year = 2022, revenue = None, opIncome = None, fcf = None, meta = None\<rparr>,
              \<lparr>year = 2023, revenue = None, opIncome = None, fcf = None, meta = None\<rparr>],
      multiples = None\<rparr>"

definition fin_example :: FinancialsPayload where
  "fin_example =
     \<lparr>ticker = ''ACME'', generated_at_utc = ''2024-01-01T00:00:00.000Z'',
      source_note = None,
      rows = [\<lparr>year = 2021, revenue = Some 100, opIncome = Some 10, fcf = Some 5, meta = None\<rparr>,
              \<lparr>year = 2022, revenue = Some 120, opIncome = Some 15, fcf = Some 8, meta = None\<rparr>,
              \<lparr>year = 2023, revenue = Some 150, opIncome = Some 22, fcf = Some 12, meta = None\<rparr>],
      multiples = Some \<lparr>pe = Some 18, ps = Some 4\<rparr>\<rparr>"

definition fin_high_ps :: FinancialsPayload where
  "fin_high_ps =
     \<lparr>ticker = ''ACME'', generated_at_utc = ''2024-01-01T00:00:00.000Z'',
      source_note = None, rows = [], multiples = Some \<lparr>pe = Some 18, ps = Some 45\<rparr>\<rparr>"

definition fin_high_pe :: FinancialsPayload where
  "fin_high_pe =
     \<lparr>ticker = ''ACME'', generated_at_utc = ''2024-01-01T00:00:00.000Z'',
      source_note = None, rows = [], multiples = Some \<lparr>pe = Some 90, ps = Some 4\<rparr>\<rparr>"

section \<open>Properties of the scoring engine\<close>

lemmas weight_defs = WEIGHTS_growth_def WEIGHTS_margin_def WEIGHTS_value_def

lemmas feature_defs =
  revCagr_def revCagr_of_def rows_sorted_def field_of_def oldest_def latest_def prev_def
  isNum_def opMargin_def fcfMargin_def margin_of_def fcfTrend_def pe_scored_def ps_scored_def
  mult_def sanitizeMultiples_def pe0_def ps0_def

lemmas scoring_defs =
  usedTotalWeight_def used_growth_flag_def used_margin_flag_def used_value_flag_def
  growthScore_def marginScore_def valueScore_def raw_total_def scoreNorm_def coverage_def
  penaltyFactor_def scoreFinal_def baseSignal_def lowConf_def signal_final_def warnings_of_def
  scaleLinear_def scaleInverse_def clamp_def Math_round_def weight_defs

subsection \<open>Coverage, penalty and final score\<close>

lemma usedTotalWeight_cases:
  "usedTotalWeight fin \<in> {0, 30, 35, 65, 70, 100}"
  by (simp add: usedTotalWeight_def weight_defs)

lemma coverage_bounds: "0 \<le> coverage fin \<and> coverage fin \<le> 1"
  using usedTotalWeight_cases [of fin] by (auto simp: coverage_def)

lemma penaltyFactor_bounds: "0.7 \<le> penaltyFactor fin \<and> penaltyFactor fin \<le> 1"
  using coverage_bounds [of fin] by (simp add: penaltyFactor_def)

text \<open>
  Claim C1. For every payload the reported score lies in \<open>[0, 100]\<close>, the coverage in
  \<open>[0, 1]\<close> and the penalty factor in \<open>[0.7, 1.0]\<close>, where the coverage is the used total
  weight over 100, the penalty factor is \<open>0.7 + 0.3 * coverage\<close> and the score is the
  rounded product of normalised score and penalty factor, clamped to \<open>[0, 100]\<close>.
\<close>

theorem score_coverage_penalty_bounds:
  "0 \<le> score (recommend tk fin) \<and> score (recommend tk fin) \<le> 100 \<and>
   0 \<le> coverage fin \<and> coverage fin \<le> 1 \<and>
   0.7 \<le> penaltyFactor fin \<and> penaltyFactor fin \<le> 1.0 \<and>
   coverage fin = used_total_weight (used (recommend tk fin)) / 100 \<and>
   penaltyFactor fin = 0.7 + 0.3 * coverage fin \<and>
   score (recommend tk fin) =
     max 0 (min 100 (Math_round (score_norm (diagnostics (recommend tk fin)) * penaltyFactor fin)))"
  using coverage_bounds [of fin] penaltyFactor_bounds [of fin]
  by (simp add: recommend_def scoreFinal_def clamp_def coverage_def penaltyFactor_def)

subsection \<open>Low-confidence override\<close>

text \<open>
  Claim C2. Whenever the computed coverage is below 0.6, the result's signal is WATCH
  and \<open>low_conf\<close> is true, whatever the score; \<open>base_signal\<close> keeps the signal the
  thresholds give for the reported score, before the override.
\<close>

theorem low_coverage_forces_watch:
  assumes "coverage fin < 0.6"
  shows "signal (recommend tk fin) = WATCH \<and>
         low_conf (diagnostics (recommend tk fin)) = True \<and>
         base_signal (diagnostics (recommend tk fin)) =
           (let s = score (recommend tk fin) in
            if s \<ge> 70 then BUY else if s \<ge> 55 then WATCH else if s \<ge> 40 then HOLD else AVOID)"
  using assms by (simp add: recommend_def signal_final_def lowConf_def baseSignal_def)

lemma value_only_cov: "coverage fin_value_only = 0.3"
  by (simp add: fin_value_only_def feature_defs scoring_defs)

theorem low_coverage_forces_watch_witness:
  "coverage fin_value_only < 0.6 \<and>
   signal (recommend ''ACME'' fin_value_only) = WATCH \<and>
   low_conf (diagnostics (recommend ''ACME'' fin_value_only)) = True \<and>
   base_signal (diagnostics (recommend ''ACME'' fin_value_only)) = HOLD \<and>
   score (recommend ''ACME'' fin_value_only) = 47"
proof -
  have c: "coverage fin_value_only < 0.6" by (simp add: value_only_cov)
  have s: "score (recommend ''ACME'' fin_value_only) = 47"
    by (simp add: recommend_def fin_value_only_def feature_defs scoring_defs)
  from low_coverage_forces_watch [OF c, of "''ACME''"] c s show ?thesis by simp
qed

subsection \<open>Sub-score bounds\<close>

lemma scaleLinear_unit: "0 \<le> scaleLinear x a b \<and> scaleLinear x a b \<le> 1"
  by (simp add: scaleLinear_def clamp_def)

lemma scaleInverse_unit: "0 \<le> scaleInverse x a b \<and> scaleInverse x a b \<le> 1"
  by (simp add: scaleInverse_def clamp_def)

lemma growthScore_bounds:
  "0 \<le> growthScore fin \<and> growthScore fin \<le> (if used_growth_flag fin then 35 else 0)"
  using scaleLinear_unit [of _ "-0.2" "0.3"]
  by (auto simp: growthScore_def used_growth_flag_def isNum_def weight_defs split: option.splits)

lemma marginScore_parts: "marginScore fin = op_part fin + fcf_part fin"
  by (simp add: marginScore_def op_part_def fcf_part_def split: option.splits)

lemma valueScore_parts: "valueScore fin = pe_part fin + ps_part fin"
  by (simp add: valueScore_def pe_part_def ps_part_def split: option.splits)

lemma op_part_bounds: "0 \<le> op_part fin \<and> op_part fin \<le> (if isNum (opMargin fin) then 20 else 0)"
  using scaleLinear_unit [of _ 0 "0.25"]
  by (auto simp: op_part_def isNum_def split: option.splits)

lemma fcf_part_bounds: "0 \<le> fcf_part fin \<and> fcf_part fin \<le> (if isNum (fcfMargin fin) then 15 else 0)"
  using scaleLinear_unit [of _ 0 "0.2"]
  by (auto simp: fcf_part_def isNum_def split: option.splits)

lemma pe_part_bounds: "0 \<le> pe_part fin \<and> pe_part fin \<le> (if isNum (pe_scored fin) then 18 else 0)"
  using scaleInverse_unit [of _ 10 40]
  by (auto simp: pe_part_def isNum_def split: option.splits)

lemma ps_part_bounds: "0 \<le> ps_part fin \<and> ps_part fin \<le> (if isNum (ps_scored fin) then 12 else 0)"
  using scaleInverse_unit [of _ 1 12]
  by (auto simp: ps_part_def isNum_def split: option.splits)

lemma marginScore_bounds:
  "0 \<le> marginScore fin \<and> marginScore fin \<le> (if used_margin_flag fin then 35 else 0)"
  using op_part_bounds [of fin] fcf_part_bounds [of fin]
  by (auto simp: marginScore_parts used_margin_flag_def split: if_splits)

lemma valueScore_bounds:
  "0 \<le> valueScore fin \<and> valueScore fin \<le> (if used_value_flag fin then 30 else 0)"
  using pe_part_bounds [of fin] ps_part_bounds [of fin]
  by (auto simp: valueScore_parts used_value_flag_def split: if_splits)

lemma raw_total_le: "0 \<le> raw_total fin \<and> raw_total fin \<le> usedTotalWeight fin"
  using growthScore_bounds [of fin] marginScore_bounds [of fin] valueScore_bounds [of fin]
  by (cases "used_growth_flag fin"; cases "used_margin_flag fin"; cases "used_value_flag fin";
      simp add: raw_total_def usedTotalWeight_def weight_defs)

text \<open>
  Claim C10. Both scaling functions clamp to \<open>[0, 1]\<close>, so the growth score lies in
  \<open>[0, 35]\<close>, the margin score in \<open>[0, 35]\<close> (at most 20 from the operating margin plus at
  most 15 from the FCF margin), the value score in \<open>[0, 30]\<close> (at most 18 from P/E plus at
  most 12 from P/S), and the raw total never exceeds the used total weight.
\<close>

theorem subscores_bounded:
  "(0 \<le> scaleLinear x a b \<and> scaleLinear x a b \<le> 1) \<and>
   (0 \<le> scaleInverse x a b \<and> scaleInverse x a b \<le> 1) \<and>
   (0 \<le> growthScore fin \<and> growthScore fin \<le> 35) \<and>
   (0 \<le> marginScore fin \<and> marginScore fin \<le> 35) \<and>
   marginScore fin = op_part fin + fcf_part fin \<and>
   (0 \<le> op_part fin \<and> op_part fin \<le> 20) \<and> (0 \<le> fcf_part fin \<and> fcf_part fin \<le> 15) \<and>
   (0 \<le> valueScore fin \<and> valueScore fin \<le> 30) \<and>
   valueScore fin = pe_part fin + ps_part fin \<and>
   (0 \<le> pe_part fin \<and> pe_part fin \<le> 18) \<and> (0 \<le> ps_part fin \<and> ps_part fin \<le> 12) \<and>
   raw_total fin = growthScore fin + marginScore fin + valueScore fin \<and>
   raw_total fin \<le> usedTotalWeight fin"
proof -
  have g: "0 \<le> growthScore fin \<and> growthScore fin \<le> 35"
    using growthScore_bounds [of fin] by (simp split: if_splits)
  have m: "0 \<le> marginScore fin \<and> marginScore fin \<le> 35"
    using marginScore_bounds [of fin] by (simp split: if_splits)
  have v: "0 \<le> valueScore fin \<and> valueScore fin \<le> 30"
    using valueScore_bounds [of fin] by (simp split: if_splits)
  have o: "0 \<le> op_part fin \<and> op_part fin \<le> 20"
    using op_part_bounds [of fin] by (simp split: if_splits)
  have f: "0 \<le> fcf_part fin \<and> fcf_part fin \<le> 15"
    using fcf_part_bounds [of fin] by (simp split: if_splits)
  have p: "0 \<le> pe_part fin \<and> pe_part fin \<le> 18"
    using pe_part_bounds [of fin] by (simp split: if_splits)
  have q: "0 \<le> ps_part fin \<and> ps_part fin \<le> 12"
    using ps_part_bounds [of fin] by (simp split: if_splits)
  show ?thesis
    using g m v o f p q scaleLinear_unit [of x a b] scaleInverse_unit [of x a b]
      raw_total_le [of fin] marginScore_parts [of fin] valueScore_parts [of fin]
    by (simp add: raw_total_def)
qed

subsection \<open>Used total weight\<close>

text \<open>
  The claim C5 as stated lists the values 0, 35, 65, 70 and 100 for the used total
  weight. A payload with no rows and a P/E of 10 uses the value component alone: 30.
\<close>

theorem used_weight_counterexample:
  "usedTotalWeight fin_value_only \<notin> {0, 35, 65, 70, 100}"
  by (simp add: fin_value_only_def feature_defs scoring_defs)

text \<open>
  Claim C5, amended. The used total weight is the sum of the weights (growth 35, margin
  35, value 30) of the components flagged as used, a component being used exactly when
  one of its inputs is present, and it takes only the values 0, 30, 35, 65, 70 or 100.
\<close>

theorem used_weight_values:
  "used_total_weight (used (recommend tk fin)) =
     (if used_growth (used (recommend tk fin)) then 35 else 0) +
     (if used_margin (used (recommend tk fin)) then 35 else 0) +
     (if used_value (used (recommend tk fin)) then 30 else 0) \<and>
   used_growth (used (recommend tk fin)) = (revCagr fin \<noteq> None) \<and>
   used_margin (used (recommend tk fin)) = (opMargin fin \<noteq> None \<or> fcfMargin fin \<noteq> None) \<and>
   used_value (used (recommend tk fin)) = (pe_scored fin \<noteq> None \<or> ps_scored fin \<noteq> None) \<and>
   used_total_weight (used (recommend tk fin)) \<in> {0, 30, 35, 65, 70, 100}"
  using usedTotalWeight_cases [of fin]
  by (simp add: recommend_def usedTotalWeight_def weight_defs used_growth_flag_def
      used_margin_flag_def used_value_flag_def isNum_def)

theorem used_weight_values_witness:
  "used_growth (used (recommend ''ACME'' fin_example)) \<and>
   used_margin (used (recommend ''ACME'' fin_example)) \<and>
   used_value (used (recommend ''ACME'' fin_example)) \<and>
   used_total_weight (used (recommend ''ACME'' fin_example)) = 100"
proof -
  have g: "revCagr fin_example \<noteq> None"
    by (simp add: fin_example_def revCagr_def revCagr_of_def rows_sorted_def field_of_def
        oldest_def latest_def prev_def cagr_def)
  have m: "opMargin fin_example \<noteq> None"
    by (simp add: fin_example_def opMargin_def margin_of_def rows_sorted_def field_of_def
        latest_def)
  have v: "pe_scored fin_example \<noteq> None"
    by (simp add: fin_example_def pe_scored_def mult_def sanitizeMultiples_def pe0_def ps0_def)
  from used_weight_values [of "''ACME''" fin_example] g m v show ?thesis by simp
qed

subsection \<open>Revenue growth\<close>

text \<open>
  The claim C6 as stated makes the growth undefined whenever an endpoint revenue is not
  positive. The year-over-year branch does not do so for the latest revenue: with
  revenues 100 and then 0 the growth is \<open>-1\<close>.
\<close>

theorem revCagr_zero_latest_counterexample:
  "length (rows_sorted fin_yoy_zero) = 2 \<and>
   revenue (last (rows_sorted fin_yoy_zero)) = Some 0 \<and>
   revCagr fin_yoy_zero = Some (- 1)"
  by (simp add: fin_yoy_zero_def revCagr_def revCagr_of_def rows_sorted_def field_of_def
      oldest_def latest_def prev_def)

lemma latest_last: "rs \<noteq> [] \<Longrightarrow> latest rs = Some (last rs)"
  by (simp add: latest_def last_conv_nth)

lemma oldest_hd: "rs \<noteq> [] \<Longrightarrow> oldest rs = Some (hd rs)"
  by (cases rs) (simp_all add: oldest_def)

lemma revCagr_of_cagr:
  assumes "3 \<le> length rs" "revenue (hd rs) = Some a" "revenue (last rs) = Some b"
  shows "revCagr_of rs = cagr a b (real (length rs - 1))"
proof -
  have ne: "rs \<noteq> []" using assms(1) by auto
  show ?thesis
    using assms by (simp add: revCagr_of_def field_of_def latest_last [OF ne] oldest_hd [OF ne])
qed

lemma revCagr_of_two:
  assumes "length rs = 2" "revenue (last rs) = Some b"
  shows "revCagr_of rs =
     (case revenue (hd rs) of
        Some p \<Rightarrow> if p \<noteq> 0 then Some (b / p - 1) else None
      | None \<Rightarrow> None)"
proof -
  have ne: "rs \<noteq> []" using assms(1) by auto
  have "rs ! (length rs - 2) = hd rs" using assms(1) ne by (simp add: hd_conv_nth)
  then have p: "prev rs = Some (hd rs)" using assms(1) by (simp add: prev_def)
  show ?thesis
    using assms
    by (simp add: revCagr_of_def field_of_def latest_last [OF ne] oldest_hd [OF ne] p
        split: option.splits)
qed

lemma revCagr_of_short: "length rs < 2 \<Longrightarrow> revCagr_of rs = None"
  by (simp add: revCagr_of_def field_of_def prev_def split: option.splits bool.splits)

lemma revCagr_of_no_latest:
  assumes "revenue (last rs) = None"
  shows "revCagr_of rs = None"
proof (cases "rs = []")
  case True
  then show ?thesis by (simp add: revCagr_of_short)
next
  case False
  show ?thesis using assms
    by (simp add: revCagr_of_def field_of_def latest_last [OF False] split: option.splits bool.splits)
qed

lemma sqrt_four_powr: "(4::real) powr (1 / 2) = 2"
  by (simp add: powr_half_sqrt)

text \<open>
  Claim C6, amended. With at least three rows and both the oldest and the latest revenue
  present, the growth is the compound annual rate from the oldest to the latest revenue
  over \<open>n - 1\<close> intervals, and it is absent when either of the two is not positive. With
  exactly two rows, both revenues present and a positive previous revenue, it is the
  simple year-over-year growth, also when the latest revenue is not positive. It is
  absent with two rows when the previous revenue is absent or zero, with fewer than two
  rows, and whenever the latest revenue is absent. The statement covers neither a
  negative previous revenue nor three or more rows whose oldest revenue is absent.
\<close>

theorem revCagr_cases:
  "(3 \<le> length (rows_sorted fin) \<and> revenue (hd (rows_sorted fin)) = Some a \<and>
    revenue (last (rows_sorted fin)) = Some b \<and> 0 < a \<and> 0 < b \<longrightarrow>
      revCagr fin = Some ((b / a) powr (1 / real (length (rows_sorted fin) - 1)) - 1)) \<and>
   (3 \<le> length (rows_sorted fin) \<and> revenue (hd (rows_sorted fin)) = Some a \<and>
    revenue (last (rows_sorted fin)) = Some b \<and> (a \<le> 0 \<or> b \<le> 0) \<longrightarrow>
      revCagr fin = None) \<and>
   (length (rows_sorted fin) = 2 \<and> revenue (hd (rows_sorted fin)) = Some p \<and>
    revenue (last (rows_sorted fin)) = Some b \<and> 0 < p \<longrightarrow>
      revCagr fin = Some (b / p - 1)) \<and>
   (length (rows_sorted fin) < 2 \<or> revenue (last (rows_sorted fin)) = None \<or>
    (length (rows_sorted fin) = 2 \<and>
     (revenue (hd (rows_sorted fin)) = None \<or> revenue (hd (rows_sorted fin)) = Some 0)) \<longrightarrow>
      revCagr fin = None)"
proof (intro conjI impI)
  assume "3 \<le> length (rows_sorted fin) \<and> revenue (hd (rows_sorted fin)) = Some a \<and>
    revenue (last (rows_sorted fin)) = Some b \<and> 0 < a \<and> 0 < b"
  then show "revCagr fin = Some ((b / a) powr (1 / real (length (rows_sorted fin) - 1)) - 1)"
    using revCagr_of_cagr [of "rows_sorted fin" a b] by (auto simp: revCagr_def cagr_def)
next
  assume "3 \<le> length (rows_sorted fin) \<and> revenue (hd (rows_sorted fin)) = Some a \<and>
    revenue (last (rows_sorted fin)) = Some b \<and> (a \<le> 0 \<or> b \<le> 0)"
  then show "revCagr fin = None"
    using revCagr_of_cagr [of "rows_sorted fin" a b] by (auto simp: revCagr_def cagr_def)
next
  assume "length (rows_sorted fin) = 2 \<and> revenue (hd (rows_sorted fin)) = Some p \<and>
    revenue (last (rows_sorted fin)) = Some b \<and> 0 < p"
  then show "revCagr fin = Some (b / p - 1)"
    using revCagr_of_two [of "rows_sorted fin" b] by (simp add: revCagr_def)
next
  let ?rs = "rows_sorted fin"
  assume h: "length ?rs < 2 \<or> revenue (last ?rs) = None \<or>
    (length ?rs = 2 \<and> (revenue (hd ?rs) = None \<or> revenue (hd ?rs) = Some 0))"
  show "revCagr fin = None"
  proof (cases "length ?rs < 2 \<or> revenue (last ?rs) = None")
    case True
    then show ?thesis
      using revCagr_of_short [of ?rs] revCagr_of_no_latest [of ?rs] by (auto simp: revCagr_def)
  next
    case False
    then obtain b where b: "revenue (last ?rs) = Some b" by auto
    from h False have n: "length ?rs = 2"
      and d: "revenue (hd ?rs) = None \<or> revenue (hd ?rs) = Some 0"
      by auto
    from revCagr_of_two [OF n b] d show ?thesis by (auto simp: revCagr_def)
  qed
qed

theorem revCagr_cases_witness:
  "revCagr fin_cagr = Some 1 \<and>
   revCagr fin_negative_oldest = None \<and>
   revCagr fin_yoy_zero = Some (0 / 100 - 1) \<and>
   revCagr fin_value_only = None"
proof -
  have a: "rows_sorted fin_cagr = rows fin_cagr"
    by (simp add: fin_cagr_def rows_sorted_def)
  have b: "rows_sorted fin_negative_oldest = rows fin_negative_oldest"
    by (simp add: fin_negative_oldest_def rows_sorted_def)
  have c: "rows_sorted fin_yoy_zero = rows fin_yoy_zero"
    by (simp add: fin_yoy_zero_def rows_sorted_def)
  have d: "rows_sorted fin_value_only = []"
    by (simp add: fin_value_only_def rows_sorted_def)
  have 1: "revCagr fin_cagr = Some 1"
    using revCagr_cases [of fin_cagr 100 400] sqrt_four_powr
    unfolding a by (simp add: fin_cagr_def)
  have 2: "revCagr fin_negative_oldest = None"
    using revCagr_cases [of fin_negative_oldest "- 5" 150]
    unfolding b by (simp add: fin_negative_oldest_def)
  have 3: "revCagr fin_yoy_zero = Some (0 / 100 - 1)"
    using revCagr_cases [of fin_yoy_zero _ 0 100]
    unfolding c by (simp add: fin_yoy_zero_def)
  have 4: "revCagr fin_value_only = None"
    using revCagr_cases [of fin_value_only]
    unfolding d by simp
  from 1 2 3 4 show ?thesis by simp
qed

subsection \<open>Empty series\<close>

lemma latest_in_set: "latest rs = Some r \<Longrightarrow> r \<in> set rs"
  by (auto simp: latest_def split: if_splits)
lemma prev_in_set: "prev rs = Some r \<Longrightarrow> r \<in> set rs"
  by (auto simp: prev_def split: if_splits)
lemma oldest_in_set: "oldest rs = Some r \<Longrightarrow> r \<in> set rs"
  by (auto simp: oldest_def split: list.splits)

lemma field_of_all_None:
  assumes "\<forall>r\<in>set rs. f r = None"
  shows "field_of f (latest rs) = None" "field_of f (prev rs) = None" "field_of f (oldest rs) = None"
  using assms latest_in_set [of rs] prev_in_set [of rs] oldest_in_set [of rs]
  by (auto simp: field_of_def split: option.splits)

lemma all_null_features:
  assumes "\<forall>r\<in>set (rows fin). revenue r = None \<and> opIncome r = None \<and> fcf r = None"
  shows "revCagr fin = None" "opMargin fin = None" "fcfMargin fin = None" "fcfTrend fin = NA"
proof -
  let ?rs = "rows_sorted fin"
  have s: "set ?rs = set (rows fin)" by (simp add: rows_sorted_def)
  have r: "\<forall>r\<in>set ?rs. revenue r = None" and o: "\<forall>r\<in>set ?rs. opIncome r = None"
    and f: "\<forall>r\<in>set ?rs. fcf r = None"
    using assms s by auto
  show "revCagr fin = None"
    by (simp add: revCagr_def revCagr_of_def field_of_all_None [OF r])
  show "opMargin fin = None"
    by (simp add: opMargin_def margin_of_def field_of_all_None [OF r] field_of_all_None [OF o])
  show "fcfMargin fin = None"
    by (simp add: fcfMargin_def margin_of_def field_of_all_None [OF r] field_of_all_None [OF f])
  show "fcfTrend fin = NA"
    by (simp add: fcfTrend_def field_of_all_None [OF f])
qed

lemma no_multiples_scored:
  assumes "multiples fin = None \<or> multiples fin = Some \<lparr>pe = None, ps = None\<rparr>"
  shows "pe_scored fin = None" "ps_scored fin = None" "notes_list (mult fin) = []"
    "pe0 fin = None" "ps0 fin = None"
  using assms by (auto simp: pe_scored_def ps_scored_def mult_def sanitizeMultiples_def pe0_def ps0_def)

text \<open>
  Claim C4. When every field of every row is absent and no multiple is present, the
  normalised score is the neutral 50, the coverage 0, the penalty factor 0.7 and the
  final score 35; the base signal is AVOID, the final signal WATCH with \<open>low_conf\<close>
  true, and the only warning is the neutral-score one.
\<close>

theorem empty_series_neutral:
  assumes "\<forall>r\<in>set (rows fin). revenue r = None \<and> opIncome r = None \<and> fcf r = None"
    and "multiples fin = None \<or> multiples fin = Some \<lparr>pe = None, ps = None\<rparr>"
  shows "score_norm (diagnostics (recommend tk fin)) = 50 \<and>
         coverage fin = 0 \<and> penaltyFactor fin = 0.7 \<and>
         score (recommend tk fin) = 35 \<and>
         base_signal (diagnostics (recommend tk fin)) = AVOID \<and>
         signal (recommend tk fin) = WATCH \<and>
         low_conf (diagnostics (recommend tk fin)) = True \<and>
         warnings (recommend tk fin) = [''No usable financial/value signals; neutral score used.'']"
proof -
  have u: "usedTotalWeight fin = 0"
    by (simp add: usedTotalWeight_def used_growth_flag_def used_margin_flag_def
        used_value_flag_def isNum_def all_null_features [OF assms(1)] no_multiples_scored [OF assms(2)])
  have c: "coverage fin = 0" by (simp add: coverage_def u)
  have p: "penaltyFactor fin = 0.7" by (simp add: penaltyFactor_def c)
  have n: "scoreNorm fin = 50" by (simp add: scoreNorm_def u)
  have f: "scoreFinal fin = 35" by (simp add: scoreFinal_def n p clamp_def Math_round_def)
  have b: "baseSignal fin = AVOID" by (simp add: baseSignal_def f)
  have l: "lowConf fin" by (simp add: lowConf_def c)
  have w: "warnings_of fin = [''No usable financial/value signals; neutral score used.'']"
    by (simp add: warnings_of_def c no_multiples_scored [OF assms(2)])
  show ?thesis
    by (simp add: recommend_def n c p f b l w signal_final_def)
qed

theorem empty_series_neutral_witness:
  "(\<exists>r. r \<in> set (rows fin_all_null)) \<and> multiples fin_all_null = None \<and>
   score_norm (diagnostics (recommend ''ACME'' fin_all_null)) = 50 \<and>
   coverage fin_all_null = 0 \<and> penaltyFactor fin_all_null = 0.7 \<and>
   score (recommend ''ACME'' fin_all_null) = 35 \<and>
   base_signal (diagnostics (recommend ''ACME'' fin_all_null)) = AVOID \<and>
   signal (recommend ''ACME'' fin_all_null) = WATCH \<and>
   low_conf (diagnostics (recommend ''ACME'' fin_all_null)) = True \<and>
   warnings (recommend ''ACME'' fin_all_null) =
     [''No usable financial/value signals; neutral score used.'']"
proof -
  have a: "\<forall>r\<in>set (rows fin_all_null). revenue r = None \<and> opIncome r = None \<and> fcf r = None"
    by (simp add: fin_all_null_def)
  have m: "multiples fin_all_null = None \<or> multiples fin_all_null = Some \<lparr>pe = None, ps = None\<rparr>"
    by (simp add: fin_all_null_def)
  have e: "\<exists>r. r \<in> set (rows fin_all_null)" by (auto simp add: fin_all_null_def)
  have n: "multiples fin_all_null = None" by (simp add: fin_all_null_def)
  from empty_series_neutral [OF a m, of "''ACME''"] e n show ?thesis by simp
qed

subsection \<open>Sanitized multiples\<close>

lemma same_scoring:
  assumes "rows fin' = rows fin" "pe_scored fin' = pe_scored fin" "ps_scored fin' = ps_scored fin"
  shows "valueScore fin' = valueScore fin" "used_value_flag fin' = used_value_flag fin"
    "growthScore fin' = growthScore fin" "marginScore fin' = marginScore fin"
    "used_growth_flag fin' = used_growth_flag fin" "used_margin_flag fin' = used_margin_flag fin"
proof -
  have r: "rows_sorted fin' = rows_sorted fin" by (simp add: rows_sorted_def assms)
  show "valueScore fin' = valueScore fin" by (simp add: valueScore_def assms)
  show "used_value_flag fin' = used_value_flag fin" by (simp add: used_value_flag_def assms)
  show "growthScore fin' = growthScore fin" by (simp add: growthScore_def revCagr_def r)
  show "marginScore fin' = marginScore fin" by (simp add: marginScore_def opMargin_def fcfMargin_def r)
  show "used_growth_flag fin' = used_growth_flag fin" by (simp add: used_growth_flag_def revCagr_def r)
  show "used_margin_flag fin' = used_margin_flag fin" by (simp add: used_margin_flag_def opMargin_def fcfMargin_def r)
qed

lemma same_result:
  assumes "rows fin' = rows fin" "pe_scored fin' = pe_scored fin" "ps_scored fin' = ps_scored fin"
  shows "used (recommend tk fin') = used (recommend tk fin)"
    "breakdown (recommend tk fin') = breakdown (recommend tk fin)"
    "score (recommend tk fin') = score (recommend tk fin)"
    "signal (recommend tk fin') = signal (recommend tk fin)"
proof -
  note s = same_scoring [OF assms]
  have u: "usedTotalWeight fin' = usedTotalWeight fin" by (simp add: usedTotalWeight_def s)
  have t: "raw_total fin' = raw_total fin" by (simp add: raw_total_def s)
  have n: "scoreNorm fin' = scoreNorm fin" by (simp add: scoreNorm_def u t)
  have c: "coverage fin' = coverage fin" by (simp add: coverage_def u)
  have f: "scoreFinal fin' = scoreFinal fin" by (simp add: scoreFinal_def penaltyFactor_def n c)
  show "used (recommend tk fin') = used (recommend tk fin)" by (simp add: recommend_def s u)
  show "breakdown (recommend tk fin') = breakdown (recommend tk fin)" by (simp add: recommend_def s t)
  show "score (recommend tk fin') = score (recommend tk fin)" by (simp add: recommend_def f)
  show "signal (recommend tk fin') = signal (recommend tk fin)"
    by (simp add: recommend_def signal_final_def baseSignal_def lowConf_def f c)
qed

text \<open>
  Claim C7. A price/sales value above 40 is left out of the value score: the value
  score, and with it the used flags, the breakdown and the final score, are those of the
  same payload without P/S; the P/S warning is emitted and \<open>summary.ps\<close> still reports
  the original value. Likewise for a price/earnings value above 80.
\<close>

theorem extreme_multiples_skipped:
  "(ps0 fin = Some v \<and> v > 40 \<longrightarrow>
      valueScore fin = valueScore (without_ps fin) \<and>
      used (recommend tk fin) = used (recommend tk (without_ps fin)) \<and>
      breakdown (recommend tk fin) = breakdown (recommend tk (without_ps fin)) \<and>
      score (recommend tk fin) = score (recommend tk (without_ps fin)) \<and>
      ''P/S is extremely high; skipped from scoring (not comparable).''
         \<in> set (warnings (recommend tk fin)) \<and>
      summary_ps (summary (recommend tk fin)) = Some v) \<and>
   (pe0 fin = Some v \<and> v > 80 \<longrightarrow>
      valueScore fin = valueScore (without_pe fin) \<and>
      used (recommend tk fin) = used (recommend tk (without_pe fin)) \<and>
      breakdown (recommend tk fin) = breakdown (recommend tk (without_pe fin)) \<and>
      score (recommend tk fin) = score (recommend tk (without_pe fin)) \<and>
      ''P/E is extremely high; skipped from scoring (not comparable).''
         \<in> set (warnings (recommend tk fin)) \<and>
      summary_pe (summary (recommend tk fin)) = Some v)"
proof (intro conjI impI)
  assume h: "ps0 fin = Some v \<and> v > 40"
  have r: "rows (without_ps fin) = rows fin" by (simp add: without_ps_def)
  have p: "pe_scored (without_ps fin) = pe_scored fin" "ps_scored (without_ps fin) = ps_scored fin"
    using h by (auto simp: without_ps_def pe_scored_def ps_scored_def mult_def sanitizeMultiples_def
        pe0_def ps0_def Let_def split: option.splits)
  show "valueScore fin = valueScore (without_ps fin)" using same_scoring(1) [OF r p] by simp
  show "used (recommend tk fin) = used (recommend tk (without_ps fin))" using same_result(1) [OF r p] by simp
  show "breakdown (recommend tk fin) = breakdown (recommend tk (without_ps fin))" using same_result(2) [OF r p] by simp
  show "score (recommend tk fin) = score (recommend tk (without_ps fin))" using same_result(3) [OF r p] by simp
  show "''P/S is extremely high; skipped from scoring (not comparable).'' \<in> set (warnings (recommend tk fin))"
    using h by (auto simp: recommend_def warnings_of_def mult_def sanitizeMultiples_def Let_def split: option.splits)
  show "summary_ps (summary (recommend tk fin)) = Some v" using h by (simp add: recommend_def)
next
  assume h: "pe0 fin = Some v \<and> v > 80"
  have r: "rows (without_pe fin) = rows fin" by (simp add: without_pe_def)
  have p: "pe_scored (without_pe fin) = pe_scored fin" "ps_scored (without_pe fin) = ps_scored fin"
    using h by (auto simp: without_pe_def pe_scored_def ps_scored_def mult_def sanitizeMultiples_def
        pe0_def ps0_def Let_def split: option.splits)
  show "valueScore fin = valueScore (without_pe fin)" using same_scoring(1) [OF r p] by simp
  show "used (recommend tk fin) = used (recommend tk (without_pe fin))" using same_result(1) [OF r p] by simp
  show "breakdown (recommend tk fin) = breakdown (recommend tk (without_pe fin))" using same_result(2) [OF r p] by simp
  show "score (recommend tk fin) = score (recommend tk (without_pe fin))" using same_result(3) [OF r p] by simp
  show "''P/E is extremely high; skipped from scoring (not comparable).'' \<in> set (warnings (recommend tk fin))"
    using h by (auto simp: recommend_def warnings_of_def mult_def sanitizeMultiples_def Let_def split: option.splits)
  show "summary_pe (summary (recommend tk fin)) = Some v" using h by (simp add: recommend_def)
qed

theorem extreme_multiples_skipped_witness:
  "(ps0 fin_high_ps = Some 45 \<and> (45::real) > 40) \<and>
   valueScore fin_high_ps = valueScore (without_ps fin_high_ps) \<and>
   ''P/S is extremely high; skipped from scoring (not comparable).''
      \<in> set (warnings (recommend ''ACME'' fin_high_ps)) \<and>
   summary_ps (summary (recommend ''ACME'' fin_high_ps)) = Some 45 \<and>
   (pe0 fin_high_pe = Some 90 \<and> (90::real) > 80) \<and>
   valueScore fin_high_pe = valueScore (without_pe fin_high_pe) \<and>
   ''P/E is extremely high; skipped from scoring (not comparable).''
      \<in> set (warnings (recommend ''ACME'' fin_high_pe)) \<and>
   summary_pe (summary (recommend ''ACME'' fin_high_pe)) = Some 90"
proof -
  have a: "ps0 fin_high_ps = Some 45 \<and> (45::real) > 40"
    by (simp add: ps0_def fin_high_ps_def)
  have b: "pe0 fin_high_pe = Some 90 \<and> (90::real) > 80"
    by (simp add: pe0_def fin_high_pe_def)
  from extreme_multiples_skipped [of fin_high_ps 45 "''ACME''"]
    extreme_multiples_skipped [of fin_high_pe 90 "''ACME''"] a b
  show ?thesis by simp
qed

section \<open>Properties of the reconciler\<close>

subsection \<open>The year map\<close>

lemma row_for_Nil: "row_for [] y = None"
  by (simp add: row_for_def)

lemma find_snoc:
  "find P (xs @ [x]) = (case find P xs of Some v \<Rightarrow> Some v | None \<Rightarrow> if P x then Some x else None)"
  by (induction xs) auto

lemma row_for_Cons:
  "row_for (r # rs) y =
     (case row_for rs y of Some v \<Rightarrow> Some v | None \<Rightarrow> if year r = y then Some r else None)"
  by (simp add: row_for_def find_snoc)

lemma row_for_None_iff: "row_for rs y = None \<longleftrightarrow> y \<notin> year ` set rs"
  by (auto simp: row_for_def find_None_iff)

lemma find_Some_mem: "find P xs = Some x \<Longrightarrow> x \<in> set xs \<and> P x"
  by (induction xs) (auto split: if_splits)

lemma row_for_Some: "row_for rs y = Some r \<Longrightarrow> r \<in> set rs \<and> year r = y"
  using find_Some_mem [of "\<lambda>r. year r = y" "rev rs" r] by (simp add: row_for_def)

lemma get_or_empty_update:
  "get_or_empty (AList.update k v m) y = (if y = k then v else get_or_empty m y)"
  by (simp add: get_or_empty_def update_conv')

lemma get_set_fh:
  "get_or_empty (set_fh m r) y =
     (if y = year r then (get_or_empty m y)\<lparr>pair_fh := Some r\<rparr> else get_or_empty m y)"
  by (simp add: set_fh_def get_or_empty_update)

lemma get_set_sec:
  "get_or_empty (set_sec m r) y =
     (if y = year r then (get_or_empty m y)\<lparr>pair_sec := Some r\<rparr> else get_or_empty m y)"
  by (simp add: set_sec_def get_or_empty_update)

lemma keys_set_fh: "fst ` set (set_fh m r) = insert (year r) (fst ` set m)"
  by (simp add: set_fh_def dom_update)

lemma keys_set_sec: "fst ` set (set_sec m r) = insert (year r) (fst ` set m)"
  by (simp add: set_sec_def dom_update)

lemma keys_foldl_fh: "fst ` set (foldl set_fh m rs) = fst ` set m \<union> year ` set rs"
  by (induction rs arbitrary: m) (auto simp: keys_set_fh)

lemma keys_foldl_sec: "fst ` set (foldl set_sec m rs) = fst ` set m \<union> year ` set rs"
  by (induction rs arbitrary: m) (auto simp: keys_set_sec)

lemma distinct_foldl_fh:
  "distinct (map fst m) \<Longrightarrow> distinct (map fst (foldl set_fh m rs))"
  by (induction rs arbitrary: m) (auto simp: set_fh_def distinct_update)

lemma distinct_foldl_sec:
  "distinct (map fst m) \<Longrightarrow> distinct (map fst (foldl set_sec m rs))"
  by (induction rs arbitrary: m) (auto simp: set_sec_def distinct_update)

lemma get_foldl_fh:
  "get_or_empty (foldl set_fh m rs) y =
     (case row_for rs y of
        None \<Rightarrow> get_or_empty m y
      | Some r \<Rightarrow> (get_or_empty m y)\<lparr>pair_fh := Some r\<rparr>)"
proof (induction rs arbitrary: m)
  case Nil
  then show ?case by (simp add: row_for_Nil)
next
  case (Cons r rs)
  show ?case
    by (auto simp: Cons.IH row_for_Cons get_set_fh split: option.splits)
qed

lemma get_foldl_sec:
  "get_or_empty (foldl set_sec m rs) y =
     (case row_for rs y of
        None \<Rightarrow> get_or_empty m y
      | Some r \<Rightarrow> (get_or_empty m y)\<lparr>pair_sec := Some r\<rparr>)"
proof (induction rs arbitrary: m)
  case Nil
  then show ?case by (simp add: row_for_Nil)
next
  case (Cons r rs)
  show ?case
    by (auto simp: Cons.IH row_for_Cons get_set_sec split: option.splits)
qed

lemma keys_byYear: "set (map fst (byYear_of fh sec)) = year ` (set fh \<union> set sec)"
  by (auto simp: byYear_of_def keys_foldl_sec keys_foldl_fh)

lemma distinct_byYear: "distinct (map fst (byYear_of fh sec))"
  by (simp add: byYear_of_def distinct_foldl_sec distinct_foldl_fh)

lemma get_or_empty_Nil: "get_or_empty [] y = \<lparr>pair_fh = None, pair_sec = None\<rparr>"
  by (simp add: get_or_empty_def)

lemma get_byYear:
  "get_or_empty (byYear_of fh sec) y = \<lparr>pair_fh = row_for fh y, pair_sec = row_for sec y\<rparr>"
  by (simp add: byYear_of_def get_foldl_sec get_foldl_fh get_or_empty_Nil split: option.splits)

lemma map_of_byYear:
  assumes "y \<in> year ` (set fh \<union> set sec)"
  shows "map_of (byYear_of fh sec) y = Some \<lparr>pair_fh = row_for fh y, pair_sec = row_for sec y\<rparr>"
proof -
  have "y \<in> fst ` set (byYear_of fh sec)" using assms keys_byYear [of fh sec] by simp
  then obtain p where p: "map_of (byYear_of fh sec) y = Some p"
    by (metis domD dom_map_of_conv_image_fst)
  with get_byYear [of fh sec y] show ?thesis by (simp add: get_or_empty_def)
qed

lemma set_slice_last3: "set (slice_last3 xs) \<subseteq> set xs"
  by (simp add: slice_last3_def set_drop_subset)

lemma merge_years_subset: "set (merge_years fh sec) \<subseteq> year ` (set fh \<union> set sec)"
  using set_slice_last3 [of "sort (map fst (byYear_of fh sec))"] keys_byYear [of fh sec]
  by (simp add: merge_years_def)

lemma those_map_Some:
  "(\<forall>x\<in>set xs. f x = Some (g x)) \<Longrightarrow> those (map f xs) = Some (map g xs)"
  by (induction xs) auto

lemma merge_total:
  "mergeRowsPreferFinnhub fh sec =
     Some (map (\<lambda>y. merge_row y \<lparr>pair_fh = row_for fh y, pair_sec = row_for sec y\<rparr>)
             (merge_years fh sec))"
proof -
  have "\<forall>y\<in>set (merge_years fh sec).
          map_option (merge_row y) (map_of (byYear_of fh sec) y) =
          Some (merge_row y \<lparr>pair_fh = row_for fh y, pair_sec = row_for sec y\<rparr>)"
    using merge_years_subset [of fh sec] by (auto simp: map_of_byYear)
  from those_map_Some [OF this] show ?thesis
    by (simp add: mergeRowsPreferFinnhub_def merge_years_def Let_def)
qed

lemma year_merge_row: "year (merge_row y p) = y"
  by (simp add: merge_row_def Let_def)

lemma merged_years:
  "map year (map (\<lambda>y. merge_row y (P y)) ys) = ys"
  by (induction ys) (auto simp: year_merge_row)

lemma sorted_years: "sorted_wrt (<) (sort (map fst (byYear_of fh sec)))"
  by (simp add: strict_sorted_iff distinct_byYear)

lemma merge_years_sorted: "sorted_wrt (<) (merge_years fh sec)"
  by (simp add: merge_years_def slice_last3_def sorted_years)

lemma merge_years_length:
  "length (merge_years fh sec) = min 3 (card (year ` (set fh \<union> set sec)))"
proof -
  have "length (sort (map fst (byYear_of fh sec))) = card (year ` (set fh \<union> set sec))"
    using distinct_card [OF distinct_byYear [of fh sec]] keys_byYear [of fh sec] by simp
  then show ?thesis by (auto simp: merge_years_def slice_last3_def)
qed

lemma merge_years_recent:
  assumes "y \<in> year ` (set fh \<union> set sec)" "y \<notin> set (merge_years fh sec)"
    "z \<in> set (merge_years fh sec)"
  shows "y < z"
proof -
  let ?ys = "sort (map fst (byYear_of fh sec))"
  let ?n = "length ?ys - 3"
  have sp: "?ys = take ?n ?ys @ drop ?n ?ys" by simp
  have "y \<in> set ?ys" using assms(1) keys_byYear [of fh sec] by simp
  then have "y \<in> set (take ?n ?ys) \<or> y \<in> set (drop ?n ?ys)"
    by (metis Un_iff sp set_append)
  with assms(2) have a: "y \<in> set (take ?n ?ys)" by (simp add: merge_years_def slice_last3_def)
  have b: "z \<in> set (drop ?n ?ys)" using assms(3) by (simp add: merge_years_def slice_last3_def)
  have "sorted_wrt (<) (take ?n ?ys @ drop ?n ?ys)" using sorted_years [of fh sec] by simp
  then show ?thesis using a b unfolding sorted_wrt_append by blast
qed

lemma merge_example: "mergeRowsPreferFinnhub fh_rows sec_rows = Some merged_rows"
  by (simp add: mergeRowsPreferFinnhub_def byYear_of_def set_fh_def set_sec_def
      get_or_empty_def slice_last3_def merge_row_def merge_value_def merge_source_def
      field_of_def isNum_def fh_rows_def sec_rows_def merged_rows_def)

subsection \<open>Years of the merged series\<close>

text \<open>
  Claim C8. For every pair of provider row lists the merge returns a series whose
  years are strictly increasing and are the three most recent years of the union of
  both providers' years (all of them when the union has fewer than three): every year
  of the union that is left out is older than every year kept.
\<close>

theorem merged_years_increasing_recent:
  "\<exists>merged. mergeRowsPreferFinnhub fh sec = Some merged \<and>
     sorted_wrt (<) (map year merged) \<and>
     length merged = min 3 (card (year ` (set fh \<union> set sec))) \<and>
     set (map year merged) \<subseteq> year ` (set fh \<union> set sec) \<and>
     (\<forall>y\<in>year ` (set fh \<union> set sec).
        y \<notin> set (map year merged) \<longrightarrow> (\<forall>z\<in>set (map year merged). y < z))"
proof -
  let ?m = "map (\<lambda>y. merge_row y \<lparr>pair_fh = row_for fh y, pair_sec = row_for sec y\<rparr>)
              (merge_years fh sec)"
  have y: "map year ?m = merge_years fh sec" by (rule merged_years)
  have l: "length ?m = length (merge_years fh sec)" by simp
  show ?thesis
  proof (intro exI conjI)
    show "mergeRowsPreferFinnhub fh sec = Some ?m" by (rule merge_total)
    show "sorted_wrt (<) (map year ?m)" unfolding y by (rule merge_years_sorted)
    show "length ?m = min 3 (card (year ` (set fh \<union> set sec)))"
      unfolding l by (rule merge_years_length)
    show "set (map year ?m) \<subseteq> year ` (set fh \<union> set sec)"
      unfolding y by (rule merge_years_subset)
    show "\<forall>y\<in>year ` (set fh \<union> set sec).
            y \<notin> set (map year ?m) \<longrightarrow> (\<forall>z\<in>set (map year ?m). y < z)"
      unfolding y using merge_years_recent [of _ fh sec] by blast
  qed
qed

theorem merged_years_increasing_recent_witness:
  "mergeRowsPreferFinnhub fh_rows sec_rows = Some merged_rows \<and>
   map year merged_rows = [2021, 2022, 2023] \<and>
   sorted_wrt (<) (map year merged_rows) \<and>
   length merged_rows = min 3 (card (year ` (set fh_rows \<union> set sec_rows))) \<and>
   2020 \<in> year ` (set fh_rows \<union> set sec_rows) \<and>
   2020 \<notin> set (map year merged_rows) \<and>
   list_all (\<lambda>z. 2020 < z) (map year merged_rows)"
proof -
  have a: "2020 \<in> year ` (set fh_rows \<union> set sec_rows)"
    by (simp add: fh_rows_def sec_rows_def)
  have b: "2020 \<notin> set (map year merged_rows)" by (simp add: merged_rows_def)
  have c: "map year merged_rows = [2021, 2022, 2023]" by (simp add: merged_rows_def)
  from merged_years_increasing_recent [of fh_rows sec_rows] merge_example a b c
  show ?thesis unfolding list_all_iff by auto
qed

subsection \<open>Field-level preference\<close>

lemma merge_value_spec: "merge_value a b = fst (resolve_spec a b)"
  by (simp add: merge_value_def resolve_spec_def isNum_def split: option.splits)

lemma merge_source_spec: "merge_source a b = snd (resolve_spec a b)"
  by (simp add: merge_source_def resolve_spec_def isNum_def split: option.splits)

text \<open>
  Claim C3. Each of the three fields of each merged year is resolved on its own: it
  takes the preferred provider's value for that year when present (provenance
  \<open>finnhub\<close>), otherwise the fallback provider's value when present (provenance \<open>sec\<close>),
  otherwise it is absent (provenance \<open>none\<close>).
\<close>

theorem merge_fields_independent:
  "\<exists>merged. mergeRowsPreferFinnhub fh sec = Some merged \<and>
     (\<forall>r\<in>set merged.
        revenue r =
          fst (resolve_spec (field_of revenue (row_for fh (year r)))
                            (field_of revenue (row_for sec (year r)))) \<and>
        opIncome r =
          fst (resolve_spec (field_of opIncome (row_for fh (year r)))
                            (field_of opIncome (row_for sec (year r)))) \<and>
        fcf r =
          fst (resolve_spec (field_of fcf (row_for fh (year r)))
                            (field_of fcf (row_for sec (year r)))) \<and>
        meta r = Some
          \<lparr>revenue_source =
             snd (resolve_spec (field_of revenue (row_for fh (year r)))
                               (field_of revenue (row_for sec (year r)))),
           opIncome_source =
             snd (resolve_spec (field_of opIncome (row_for fh (year r)))
                               (field_of opIncome (row_for sec (year r)))),
           fcf_source =
             snd (resolve_spec (field_of fcf (row_for fh (year r)))
                               (field_of fcf (row_for sec (year r))))\<rparr>)"
proof -
  let ?m = "map (\<lambda>y. merge_row y \<lparr>pair_fh = row_for fh y, pair_sec = row_for sec y\<rparr>)
              (merge_years fh sec)"
  have "mergeRowsPreferFinnhub fh sec = Some ?m" by (rule merge_total)
  moreover have "\<forall>r\<in>set ?m.
        revenue r =
          fst (resolve_spec (field_of revenue (row_for fh (year r)))
                            (field_of revenue (row_for sec (year r)))) \<and>
        opIncome r =
          fst (resolve_spec (field_of opIncome (row_for fh (year r)))
                            (field_of opIncome (row_for sec (year r)))) \<and>
        fcf r =
          fst (resolve_spec (field_of fcf (row_for fh (year r)))
                            (field_of fcf (row_for sec (year r)))) \<and>
        meta r = Some
          \<lparr>revenue_source =
             snd (resolve_spec (field_of revenue (row_for fh (year r)))
                               (field_of revenue (row_for sec (year r)))),
           opIncome_source =
             snd (resolve_spec (field_of opIncome (row_for fh (year r)))
                               (field_of opIncome (row_for sec (year r)))),
           fcf_source =
             snd (resolve_spec (field_of fcf (row_for fh (year r)))
                               (field_of fcf (row_for sec (year r))))\<rparr>"
    by (auto simp: merge_row_def Let_def merge_value_spec merge_source_spec)
  ultimately show ?thesis by blast
qed

theorem merge_fields_independent_witness:
  "mergeRowsPreferFinnhub fh_rows sec_rows = Some merged_rows \<and> length merged_rows = 3 \<and>
   list_all (\<lambda>r.
        revenue r =
          fst (resolve_spec (field_of revenue (row_for fh_rows (year r)))
                            (field_of revenue (row_for sec_rows (year r)))) \<and>
        opIncome r =
          fst (resolve_spec (field_of opIncome (row_for fh_rows (year r)))
                            (field_of opIncome (row_for sec_rows (year r)))) \<and>
        fcf r =
          fst (resolve_spec (field_of fcf (row_for fh_rows (year r)))
                            (field_of fcf (row_for sec_rows (year r)))) \<and>
        meta r = Some
          \<lparr>revenue_source =
             snd (resolve_spec (field_of revenue (row_for fh_rows (year r)))
                               (field_of revenue (row_for sec_rows (year r)))),
           opIncome_source =
             snd (resolve_spec (field_of opIncome (row_for fh_rows (year r)))
                               (field_of opIncome (row_for sec_rows (year r)))),
           fcf_source =
             snd (resolve_spec (field_of fcf (row_for fh_rows (year r)))
                               (field_of fcf (row_for sec_rows (year r))))\<rparr>) merged_rows"
proof -
  have l: "length merged_rows = 3" by (simp add: merged_rows_def)
  from merge_fields_independent [of fh_rows sec_rows] merge_example l
  show ?thesis unfolding list_all_iff by auto
qed

subsection \<open>Unmapped ticker\<close>

text \<open>
  Claim C9. When the ticker map has no entry for the ticker, the financials handler
  answers with status 200 and an empty series: no rows, both multiples absent and the
  note that no mapping exists. The recommendation handler, given that answer, still
  answers with status 200 and a result in which every derived metric is absent and no
  component is used.
\<close>

theorem no_cik_soft_degradation:
  assumes "fin_tickerRaw env = Some raw" "raw \<noteq> []" "fin_toUpperTicker env raw = Some tk"
    and "fin_SEC_USER_AGENT env = Some ua" "ua \<noteq> []"
    and "fetchSecTickerMap env ua = Inr tickerMap" "tickerMap tk = None"
    and "rec_tickerRaw renv = Some raw'" "raw' \<noteq> []" "rec_toUpperTicker renv raw' = Some tk'"
    and "fetchFinancials renv tk' =
           (case financials_GET env of Some res \<Rightarrow> Inr res | None \<Rightarrow> Inl ''fetch failed'')"
  shows "financials_GET env =
           Some \<lparr>fin_status = 200,
                 fin_body = FinPayload
                   \<lparr>ticker = tk, generated_at_utc = fin_now env,
                    source_note = Some ''SEC has no CIK mapping for this ticker.'',
                    rows = [], multiples = Some \<lparr>pe = None, ps = None\<rparr>\<rparr>\<rparr> \<and>
         (\<exists>r. recommendation_GET renv = Some \<lparr>rec_status = 200, rec_body = RecPayload r\<rparr> \<and>
              summary r =
                \<lparr>summary_revenue_cagr = None, summary_op_margin = None,
                 summary_fcf_margin = None, summary_fcf_trend = NA,
                 summary_pe = None, summary_ps = None\<rparr> \<and>
              used r =
                \<lparr>used_growth = False, used_margin = False, used_value = False,
                 used_total_weight = 0\<rparr> \<and>
              score r = 35 \<and> signal r = WATCH \<and>
              diag_note (diagnostics r) = ''SEC has no CIK mapping for this ticker.'' \<and>
              warnings r = [''No usable financial/value signals; neutral score used.''])"
proof -
  let ?p = "\<lparr>ticker = tk, generated_at_utc = fin_now env,
             source_note = Some ''SEC has no CIK mapping for this ticker.'',
             rows = [], multiples = Some \<lparr>pe = None, ps = None\<rparr>\<rparr>"
  have g: "financials_GET env = Some \<lparr>fin_status = 200, fin_body = FinPayload ?p\<rparr>"
    using assms(1-7) by (simp add: financials_GET_def env_or_empty_def no_cik_response_def)
  have f: "fetchFinancials renv tk' = Inr \<lparr>fin_status = 200, fin_body = FinPayload ?p\<rparr>"
    using assms(11) g by simp
  have r: "recommendation_GET renv =
      Some \<lparr>rec_status = 200, rec_body = RecPayload (recommend tk' ?p)\<rparr>"
    using assms(8-10) f by (simp add: recommendation_GET_def response_ok_def payload_of_def)
  have a: "\<forall>r\<in>set (rows ?p). revenue r = None \<and> opIncome r = None \<and> fcf r = None" by simp
  have m: "multiples ?p = None \<or> multiples ?p = Some \<lparr>pe = None, ps = None\<rparr>" by simp
  note feat = all_null_features [OF a] no_multiples_scored [OF m]
  have u: "usedTotalWeight ?p = 0"
    by (simp add: usedTotalWeight_def used_growth_flag_def used_margin_flag_def
        used_value_flag_def isNum_def feat)
  have c: "coverage ?p = 0" by (simp add: coverage_def u)
  have f35: "scoreFinal ?p = 35"
    by (simp add: scoreFinal_def scoreNorm_def penaltyFactor_def c u clamp_def Math_round_def)
  have s: "summary (recommend tk' ?p) =
      \<lparr>summary_revenue_cagr = None, summary_op_margin = None,
       summary_fcf_margin = None, summary_fcf_trend = NA,
       summary_pe = None, summary_ps = None\<rparr>"
    by (simp add: recommend_def feat)
  have us: "used (recommend tk' ?p) =
      \<lparr>used_growth = False, used_margin = False, used_value = False, used_total_weight = 0\<rparr>"
    by (simp add: recommend_def used_growth_flag_def used_margin_flag_def
        used_value_flag_def isNum_def feat u)
  have sc: "score (recommend tk' ?p) = 35" by (simp add: recommend_def f35)
  have sg: "signal (recommend tk' ?p) = WATCH"
    by (simp add: recommend_def signal_final_def lowConf_def c)
  have dn: "diag_note (diagnostics (recommend tk' ?p)) = ''SEC has no CIK mapping for this ticker.''"
    by (simp add: recommend_def)
  have w: "warnings (recommend tk' ?p) = [''No usable financial/value signals; neutral score used.'']"
    by (simp add: recommend_def warnings_of_def c feat)
  from g r s us sc sg dn w show ?thesis by blast
qed

theorem no_cik_soft_degradation_witness:
  "financials_GET env_unmapped =
     Some \<lparr>fin_status = 200,
           fin_body = FinPayload
             \<lparr>ticker = ''ZZZZ'', generated_at_utc = ''2024-01-01T00:00:00.000Z'',
              source_note = Some ''SEC has no CIK mapping for this ticker.'',
              rows = [], multiples = Some \<lparr>pe = None, ps = None\<rparr>\<rparr>\<rparr> \<and>
   (\<exists>r. recommendation_GET renv_unmapped = Some \<lparr>rec_status = 200, rec_body = RecPayload r\<rparr> \<and>
        score r = 35 \<and> signal r = WATCH \<and>
        used_total_weight (used r) = 0)"
proof -
  have 1: "fin_tickerRaw env_unmapped = Some ''zzzz''" "''zzzz'' \<noteq> []"
    "fin_toUpperTicker env_unmapped ''zzzz'' = Some ''ZZZZ''"
    "fin_SEC_USER_AGENT env_unmapped = Some ''portal admin@example.com''"
    "''portal admin@example.com'' \<noteq> []"
    "fetchSecTickerMap env_unmapped ''portal admin@example.com'' = Inr [''AAPL'' \<mapsto> ''0000320193'']"
    "[''AAPL'' \<mapsto> ''0000320193''] ''ZZZZ'' = None"
    by (simp_all add: env_unmapped_def)
  have 2: "rec_tickerRaw renv_unmapped = Some ''zzzz''"
    "rec_toUpperTicker renv_unmapped ''zzzz'' = Some ''ZZZZ''"
    "fetchFinancials renv_unmapped ''ZZZZ'' =
       (case financials_GET env_unmapped of Some res \<Rightarrow> Inr res | None \<Rightarrow> Inl ''fetch failed'')"
    by (simp_all add: renv_unmapped_def)
  have n: "fin_now env_unmapped = ''2024-01-01T00:00:00.000Z''" by (simp add: env_unmapped_def)
  from no_cik_soft_degradation [OF 1 2(1) 1(2) 2(2) 2(3)] n
  show ?thesis by auto
qed

end
